theory Spec2Isabelle
  imports Complex_Main
begin

section \<open>JavaScript numbers\<close>

text \<open>
  The route/time synchronisation code of \<^verbatim>\<open>src/syncview/dev/svscript.js\<close> computes with
  JavaScript numbers. They are modelled as the real numbers extended by the three special
  values the code can produce and compare against: \<open>Infinity\<close>, \<open>-Infinity\<close> and \<open>NaN\<close>.
  Arithmetic on finite values is exact: rounding, overflow to infinity and the sign of zero
  are not part of the model. Division by zero gives what JavaScript gives (\<open>0/0\<close> is
  \<open>NaN\<close>, \<open>x/0\<close> is an infinity), and every comparison with \<open>NaN\<close> is false. The model
  says nothing about rounding error: no theorem below bounds one or states an equality
  that holds only without rounding.
\<close>

datatype jsnum = Num real | PInf | NInf | NaN

instantiation jsnum :: "{plus, uminus, minus, times, inverse, ord}"
begin

fun uminus_jsnum :: "jsnum \<Rightarrow> jsnum" where
  "uminus_jsnum (Num a) = Num (- a)"
| "uminus_jsnum PInf = NInf"
| "uminus_jsnum NInf = PInf"
| "uminus_jsnum NaN = NaN"

fun plus_jsnum :: "jsnum \<Rightarrow> jsnum \<Rightarrow> jsnum" where
  "plus_jsnum (Num a) (Num b) = Num (a + b)"
| "plus_jsnum (Num a) PInf = PInf"
| "plus_jsnum (Num a) NInf = NInf"
| "plus_jsnum (Num a) NaN = NaN"
| "plus_jsnum PInf (Num b) = PInf"
| "plus_jsnum PInf PInf = PInf"
| "plus_jsnum PInf NInf = NaN"
| "plus_jsnum PInf NaN = NaN"
| "plus_jsnum NInf (Num b) = NInf"
| "plus_jsnum NInf PInf = NaN"
| "plus_jsnum NInf NInf = NInf"
| "plus_jsnum NInf NaN = NaN"
| "plus_jsnum NaN b = NaN"

definition minus_jsnum :: "jsnum \<Rightarrow> jsnum \<Rightarrow> jsnum" where
  "minus_jsnum a b = a + (- b)"

fun times_jsnum :: "jsnum \<Rightarrow> jsnum \<Rightarrow> jsnum" where
  "times_jsnum (Num a) (Num b) = Num (a * b)"
| "times_jsnum (Num a) PInf = (if a = 0 then NaN else if 0 < a then PInf else NInf)"
| "times_jsnum (Num a) NInf = (if a = 0 then NaN else if 0 < a then NInf else PInf)"
| "times_jsnum (Num a) NaN = NaN"
| "times_jsnum PInf (Num b) = (if b = 0 then NaN else if 0 < b then PInf else NInf)"
| "times_jsnum PInf PInf = PInf"
| "times_jsnum PInf NInf = NInf"
| "times_jsnum PInf NaN = NaN"
| "times_jsnum NInf (Num b) = (if b = 0 then NaN else if 0 < b then NInf else PInf)"
| "times_jsnum NInf PInf = NInf"
| "times_jsnum NInf NInf = PInf"
| "times_jsnum NInf NaN = NaN"
| "times_jsnum NaN b = NaN"

fun divide_jsnum :: "jsnum \<Rightarrow> jsnum \<Rightarrow> jsnum" where
  "divide_jsnum (Num a) (Num b) =
     (if b = 0 then (if a = 0 then NaN else if 0 < a then PInf else NInf)
      else Num (a / b))"
| "divide_jsnum (Num a) PInf = Num 0"
| "divide_jsnum (Num a) NInf = Num 0"
| "divide_jsnum (Num a) NaN = NaN"
| "divide_jsnum PInf (Num b) = (if 0 \<le> b then PInf else NInf)"
| "divide_jsnum PInf PInf = NaN"
| "divide_jsnum PInf NInf = NaN"
| "divide_jsnum PInf NaN = NaN"
| "divide_jsnum NInf (Num b) = (if 0 \<le> b then NInf else PInf)"
| "divide_jsnum NInf PInf = NaN"
| "divide_jsnum NInf NInf = NaN"
| "divide_jsnum NInf NaN = NaN"
| "divide_jsnum NaN b = NaN"

definition inverse_jsnum :: "jsnum \<Rightarrow> jsnum" where
  "inverse_jsnum a = divide (Num 1) a"

fun less_jsnum :: "jsnum \<Rightarrow> jsnum \<Rightarrow> bool" where
  "less_jsnum (Num a) (Num b) = (a < b)"
| "less_jsnum (Num a) PInf = True"
| "less_jsnum (Num a) NInf = False"
| "less_jsnum (Num a) NaN = False"
| "less_jsnum PInf b = False"
| "less_jsnum NInf (Num b) = True"
| "less_jsnum NInf PInf = True"
| "less_jsnum NInf NInf = False"
| "less_jsnum NInf NaN = False"
| "less_jsnum NaN b = False"

fun less_eq_jsnum :: "jsnum \<Rightarrow> jsnum \<Rightarrow> bool" where
  "less_eq_jsnum (Num a) (Num b) = (a \<le> b)"
| "less_eq_jsnum (Num a) PInf = True"
| "less_eq_jsnum (Num a) NInf = False"
| "less_eq_jsnum (Num a) NaN = False"
| "less_eq_jsnum PInf (Num b) = False"
| "less_eq_jsnum PInf PInf = True"
| "less_eq_jsnum PInf NInf = False"
| "less_eq_jsnum PInf NaN = False"
| "less_eq_jsnum NInf (Num b) = True"
| "less_eq_jsnum NInf PInf = True"
| "less_eq_jsnum NInf NInf = True"
| "less_eq_jsnum NInf NaN = False"
| "less_eq_jsnum NaN b = False"

instance ..

end

text \<open>\<^verbatim>\<open>Math.abs\<close>, \<^verbatim>\<open>Math.sqrt\<close>, \<^verbatim>\<open>Math.max\<close>, \<^verbatim>\<open>Math.min\<close> and \<^verbatim>\<open>x ** 2\<close>.\<close>

fun Math_abs :: "jsnum \<Rightarrow> jsnum" where
  "Math_abs (Num a) = Num \<bar>a\<bar>"
| "Math_abs PInf = PInf"
| "Math_abs NInf = PInf"
| "Math_abs NaN = NaN"

fun Math_sqrt :: "jsnum \<Rightarrow> jsnum" where
  "Math_sqrt (Num a) = (if a < 0 then NaN else Num (sqrt a))"
| "Math_sqrt PInf = PInf"
| "Math_sqrt NInf = NaN"
| "Math_sqrt NaN = NaN"

definition Math_max :: "jsnum \<Rightarrow> jsnum \<Rightarrow> jsnum" where
  "Math_max a b = (if a = NaN \<or> b = NaN then NaN else if a < b then b else a)"

definition Math_min :: "jsnum \<Rightarrow> jsnum \<Rightarrow> jsnum" where
  "Math_min a b = (if a = NaN \<or> b = NaN then NaN else if b < a then b else a)"

definition pow2 :: "jsnum \<Rightarrow> jsnum" where
  "pow2 x = x * x"

text \<open>
  Reading a number array out of range gives \<open>undefined\<close>, which arithmetic and
  comparisons turn into \<open>NaN\<close>.
\<close>

definition num_at :: "jsnum list \<Rightarrow> nat \<Rightarrow> jsnum" where
  "num_at xs i = (if i < length xs then xs ! i else NaN)"

section \<open>Data model\<close>

text \<open>
  A position is the two-element array \<open>[lat, lon]\<close>. A linked point (anchor) of
  \<open>timePoints\<close> and a landmark share the fields \<open>time\<close>, \<open>lat\<close>, \<open>lon\<close>; the anchor adds
  the cumulative distance \<open>dist\<close> of its projection onto the route (field \<open>dist'\<close> here),
  the landmark its description. Coordinates and distances are numbers. The time of a
  linked point is converted with \<open>Number\<close> when it is loaded (line 95) and so is a
  number. The time of a landmark is kept as the JSON document has it (line 105) and can
  have another type: \<open>time_is_number\<close> says whether \<open>typeof time === 'number'\<close>, and
  \<open>time\<close> is the number the value converts to, which is what \<open>-\<close>, \<open><\<close>, \<open><=\<close> and
  \<open>>=\<close> against a number read (for a number, the value itself).
\<close>

type_synonym point = "jsnum \<times> jsnum"

record sample =
  time :: jsnum
  lat :: jsnum
  lon :: jsnum

record timePoint = sample +
  dist' :: jsnum

record landmark = sample +
  description :: string
  time_is_number :: bool

text \<open>
  The exceptions: the \<open>TypeError\<close> of a property read on \<open>undefined\<close>, and the \<open>Error\<close>
  \<open>Invalid LatLng object\<close> that the constructor of Leaflet's \<open>LatLng\<close> throws.
\<close>

datatype error = TypeError | InvalidLatLng

section \<open>Time and distance along the route\<close>

text \<open>
  The \<open>for\<close> loops of \<open>distanceToTime\<close> and \<open>interpolateDistanceForTime\<close>, from index
  \<open>i\<close> on. \<open>Some r\<close> is the value returned from inside the loop, \<open>None\<close> means that the loop
  ran to its end.
\<close>

function distanceToTime_loop :: "timePoint list \<Rightarrow> jsnum \<Rightarrow> nat \<Rightarrow> jsnum option" where
  "distanceToTime_loop tps d i =
     (if i < length tps then
        (let prev = tps ! (i - 1); nxt = tps ! i in
         if d \<ge> dist' prev \<and> d \<le> dist' nxt then
           (let frac = (d - dist' prev) / (dist' nxt - dist' prev) in
            Some (time prev + frac * (time nxt - time prev)))
         else distanceToTime_loop tps d (i + 1))
      else None)"
  by pat_completeness auto
termination
  by (relation "measure (\<lambda>(tps, d, i). length tps - i)") auto

definition distanceToTime :: "timePoint list \<Rightarrow> jsnum \<Rightarrow> jsnum" where
  "distanceToTime tps d =
     (if length tps < 2 then Num 0
      else case distanceToTime_loop tps d 1 of
             Some r \<Rightarrow> r
           | None \<Rightarrow>
               if d < dist' (tps ! 0) then time (tps ! 0)
               else if d > dist' (last tps) then time (last tps)
               else Num 0)"

function interpolate_loop :: "timePoint list \<Rightarrow> jsnum \<Rightarrow> nat \<Rightarrow> jsnum option" where
  "interpolate_loop tps t i =
     (if i < length tps then
        (let prev = tps ! (i - 1); nxt = tps ! i in
         if t \<ge> time prev \<and> t \<le> time nxt then
           (let frac = (t - time prev) / (time nxt - time prev) in
            Some (dist' prev + frac * (dist' nxt - dist' prev)))
         else interpolate_loop tps t (i + 1))
      else None)"
  by pat_completeness auto
termination
  by (relation "measure (\<lambda>(tps, t, i). length tps - i)") auto

text \<open>
  \<open>interpolateDistanceForTime\<close> reads \<open>timePoints[0].time\<close> before it looks at the length:
  on the empty list \<open>timePoints[0]\<close> is \<open>undefined\<close> and the property read throws a
  \<open>TypeError\<close>.
\<close>

definition interpolateDistanceForTime :: "timePoint list \<Rightarrow> jsnum \<Rightarrow> error + jsnum" where
  "interpolateDistanceForTime tps t =
     (if tps = [] then Inl TypeError
      else if t \<le> time (tps ! 0) then Inr (dist' (tps ! 0))
      else if t \<ge> time (last tps) then Inr (dist' (last tps))
      else if length tps < 2 then Inr (Num 0)
      else case interpolate_loop tps t 1 of
             Some r \<Rightarrow> Inr r
           | None \<Rightarrow>
               if t < time (tps ! 0) then Inr (dist' (tps ! 0))
               else if t > time (last tps) then Inr (dist' (last tps))
               else Inr (Num 0))"

section \<open>Projection onto the route\<close>

text \<open>
  The functions below read the globals \<open>routeCoords\<close> and \<open>cumulativeDist\<close>; the model
  passes them as the arguments \<open>rc\<close> and \<open>cum\<close>. \<open>pointToSegmentDistance\<close> returns the
  object \<open>{dist, frac}\<close>, \<open>findNearestPointOnRoute\<close> the object \<open>{point, dist}\<close>.
\<close>

record segResult =
  seg_dist :: jsnum
  frac :: jsnum

record nearestResult =
  point :: "point option"
  near_dist :: jsnum

definition pointToSegmentDistance :: "point \<Rightarrow> point \<Rightarrow> point \<Rightarrow> segResult" where
  "pointToSegmentDistance p a b =
     (let x = snd p; y = fst p;
          x1 = snd a; y1 = fst a; x2 = snd b; y2 = fst b;
          A = x - x1; B = y - y1; C = x2 - x1; D = y2 - y1;
          dot = A * C + B * D; lenSq = C * C + D * D;
          fr = Math_max (Num 0) (Math_min (Num 1) (dot / lenSq));
          projX = x1 + fr * C; projY = y1 + fr * D;
          dst = Math_sqrt (pow2 (x - projX) + pow2 (y - projY)) * Num 111320
      in \<lparr>seg_dist = dst, frac = fr\<rparr>)"

function findNearestDistance_loop ::
  "point list \<Rightarrow> jsnum list \<Rightarrow> point \<Rightarrow> nat \<Rightarrow> jsnum \<Rightarrow> jsnum \<Rightarrow> jsnum" where
  "findNearestDistance_loop rc cum p i nearestDist bestCumDist =
     (if i < length rc then
        (let a = rc ! (i - 1); b = rc ! i;
             d = pointToSegmentDistance p a b in
         if seg_dist d < nearestDist then
           findNearestDistance_loop rc cum p (i + 1) (seg_dist d)
             (num_at cum (i - 1) + frac d * (num_at cum i - num_at cum (i - 1)))
         else findNearestDistance_loop rc cum p (i + 1) nearestDist bestCumDist)
      else bestCumDist)"
  by pat_completeness auto
termination
  by (relation "measure (\<lambda>(rc, cum, p, i, n, b). length rc - i)") auto

definition findNearestDistanceOnRoute :: "point list \<Rightarrow> jsnum list \<Rightarrow> point \<Rightarrow> jsnum" where
  "findNearestDistanceOnRoute rc cum position =
     findNearestDistance_loop rc cum position 1 PInf (Num 0)"

function findNearestPoint_loop ::
  "point list \<Rightarrow> jsnum list \<Rightarrow> point \<Rightarrow> nat \<Rightarrow> jsnum \<Rightarrow> point option \<Rightarrow> jsnum
     \<Rightarrow> nearestResult" where
  "findNearestPoint_loop rc cum p i nearestDist bestPoint bestCumDist =
     (if i < length rc then
        (let a = rc ! (i - 1); b = rc ! i;
             d = pointToSegmentDistance p a b in
         if seg_dist d < nearestDist then
           (let latN = fst a + frac d * (fst b - fst a);
                lonN = snd a + frac d * (snd b - snd a) in
            findNearestPoint_loop rc cum p (i + 1) (seg_dist d) (Some (latN, lonN))
              (num_at cum (i - 1) + frac d * (num_at cum i - num_at cum (i - 1))))
         else findNearestPoint_loop rc cum p (i + 1) nearestDist bestPoint bestCumDist)
      else \<lparr>point = bestPoint, near_dist = bestCumDist\<rparr>)"
  by pat_completeness auto
termination
  by (relation "measure (\<lambda>(rc, cum, p, i, n, bp, b). length rc - i)") auto

text \<open>\<open>routeCoords[0]\<close> is \<open>undefined\<close> (\<open>None\<close>) on the empty route.\<close>

definition first_point :: "point list \<Rightarrow> point option" where
  "first_point rc = (if rc = [] then None else Some (rc ! 0))"

definition findNearestPointOnRoute :: "point list \<Rightarrow> jsnum list \<Rightarrow> point \<Rightarrow> nearestResult" where
  "findNearestPointOnRoute rc cum position =
     findNearestPoint_loop rc cum position 1 PInf (first_point rc) (Num 0)"

section \<open>Position at a distance\<close>

function getPosition_loop :: "jsnum list \<Rightarrow> jsnum \<Rightarrow> nat \<Rightarrow> nat" where
  "getPosition_loop cum targetDist i =
     (if i < length cum \<and> cum ! i < targetDist
      then getPosition_loop cum targetDist (i + 1) else i)"
  by pat_completeness auto
termination
  by (relation "measure (\<lambda>(cum, t, i). length cum - i)") auto

text \<open>
  The result is \<open>Inr None\<close> where the source returns \<open>undefined\<close> (\<open>routeCoords[0]\<close> of the
  empty route). Where \<open>routeCoords[i]\<close> is \<open>undefined\<close> because the distance table is
  longer than the route, reading its component throws.
\<close>

definition getPositionAtDistance ::
  "point list \<Rightarrow> jsnum list \<Rightarrow> jsnum \<Rightarrow> error + point option" where
  "getPositionAtDistance rc cum targetDist =
     (if length rc < 2 then Inr (first_point rc)
      else
        (let i = getPosition_loop cum targetDist 1 in
         if i \<ge> length cum then Inr (Some (last rc))
         else if i < length rc then
           (let a = rc ! (i - 1); b = rc ! i;
                segDist = cum ! i - cum ! (i - 1);
                segFrac = (targetDist - cum ! (i - 1)) / segDist in
            Inr (Some (fst a + segFrac * (fst b - fst a), snd a + segFrac * (snd b - snd a))))
         else Inl TypeError))"

section \<open>The session state\<close>

text \<open>
  The global variables of the script. The Leaflet and DOM objects are kept as what the
  script gives them: \<open>marker\<close> is \<open>None\<close> while the variable is \<open>null\<close> and otherwise holds
  the position last given to \<open>L.marker\<close> or \<open>setLatLng\<close> (\<open>None\<close> for \<open>undefined\<close>);
  \<open>mapView\<close> is the position last given to \<open>setView\<close> or \<open>panTo\<close>; \<open>labelDisplay\<close> is the
  element of that id, if the page has it; \<open>player\<close> is \<open>None\<close> while there is no player
  and otherwise holds the value \<open>player.getCurrentTime()\<close> returns.
  \<open>setupVisualization\<close> gives positions taken from the loaded data. \<open>syncMarker\<close> gives a
  computed position, which can be \<open>NaN\<close>; there Leaflet's conversion of the position is
  part of the model (\<open>toLatLng\<close> below).
\<close>

datatype markerObj = Marker "point option"

record labelBox =
  innerText :: string
  opacity :: nat

record state =
  routeCoords :: "point list"
  cumulativeDist :: "jsnum list"
  timePoints :: "timePoint list"
  landmarks :: "landmark list"
  initialDist :: jsnum
  initialPos :: "point option"
  marker :: "markerObj option"
  player :: "jsnum option"
  autoPanEnabled :: bool
  mapView :: "point option"
  labelDisplay :: "labelBox option"

text \<open>
  The loaded JSON document: \<open>coordinates\<close> is
  \<open>data.geojson.features[0].geometry.coordinates\<close>, a list of \<open>[lon, lat]\<close> pairs;
  \<open>linkedPoints\<close>, \<open>landmarks\<close> and \<open>startPosition\<close> may be missing. A linked point is
  \<open>{time, position: [lat, lon]}\<close>, the start position \<open>{lat, lon}\<close>.
\<close>

record linkedPoint =
  time_lp :: jsnum
  position :: point

record data =
  coordinates :: "(jsnum \<times> jsnum) list"
  linkedPoints :: "linkedPoint list option"
  data_landmarks :: "landmark list option"
  startPosition :: "point option"

section \<open>Loading\<close>

text \<open>
  \<open>map.distance\<close> belongs to the Leaflet library; it is the parameter \<open>distance\<close> of the
  model.
\<close>

function cumulative_loop ::
  "(point \<Rightarrow> point \<Rightarrow> jsnum) \<Rightarrow> point list \<Rightarrow> nat \<Rightarrow> jsnum list \<Rightarrow> jsnum list" where
  "cumulative_loop distance rc i cum =
     (if i < length rc then
        (let d = distance (rc ! (i - 1)) (rc ! i) in
         cumulative_loop distance rc (i + 1) (cum @ [num_at cum (i - 1) + d]))
      else cum)"
  by pat_completeness auto
termination
  by (relation "measure (\<lambda>(distance, rc, i, cum). length rc - i)") auto

definition cumulativeDistances :: "(point \<Rightarrow> point \<Rightarrow> jsnum) \<Rightarrow> point list \<Rightarrow> jsnum list" where
  "cumulativeDistances distance rc = cumulative_loop distance rc 1 [Num 0]"

text \<open>
  \<open>timePoints.sort((a, b) => a.time - b.time)\<close>: the sort of an array is stable, so with
  this comparator on numeric times it gives the result of a stable insertion sort.
\<close>

fun insert_time :: "timePoint \<Rightarrow> timePoint list \<Rightarrow> timePoint list" where
  "insert_time x [] = [x]"
| "insert_time x (y # ys) =
     (if time y - time x < Num 0 then y # insert_time x ys else x # y # ys)"

definition sort_time :: "timePoint list \<Rightarrow> timePoint list" where
  "sort_time tps = foldr insert_time tps []"

text \<open>
  Line 113 stores the first landmark's time in \<open>timePoints[0].time\<close> as it is. The anchor
  keeps the number it converts to: the functions that read an anchor's time on the state
  (the comparisons and subtractions of \<open>interpolateDistanceForTime\<close>) read that number.
\<close>

definition loadData :: "(point \<Rightarrow> point \<Rightarrow> jsnum) \<Rightarrow> data \<Rightarrow> state \<Rightarrow> state" where
  "loadData distance dat s =
     (let coords = coordinates dat;
          rc = map (\<lambda>c. (snd c, fst c)) coords;
          cum = cumulativeDistances distance rc;
          tps = sort_time
                  (map (\<lambda>p. \<lparr>time = time_lp p,
                             lat = fst (position p),
                             lon = snd (position p),
                             dist' = findNearestDistanceOnRoute rc cum
                                       (fst (position p), snd (position p))\<rparr>)
                       (case linkedPoints dat of None \<Rightarrow> [] | Some ps \<Rightarrow> ps));
          lms = (case data_landmarks dat of None \<Rightarrow> [] | Some ls \<Rightarrow> ls);
          tps' = (if length lms > 0 \<and> length tps > 0 then
                    (let lm0 = lms ! 0;
                         nearest = findNearestPointOnRoute rc cum (lat lm0, lon lm0) in
                     tps[0 := (tps ! 0)\<lparr>dist' := near_dist nearest, time := time lm0\<rparr>])
                  else tps);
          (pos, dst) =
            (case startPosition dat of
               Some sp \<Rightarrow> (Some sp, findNearestDistanceOnRoute rc cum sp)
             | None \<Rightarrow>
                 if length lms > 0 then
                   (Some (lat (lms ! 0), lon (lms ! 0)),
                    findNearestDistanceOnRoute rc cum (lat (lms ! 0), lon (lms ! 0)))
                 else if length tps' > 0 then
                   (Some (lat (tps' ! 0), lon (tps' ! 0)), dist' (tps' ! 0))
                 else (first_point rc, Num 0))
      in s\<lparr>routeCoords := rc, cumulativeDist := cum, timePoints := tps',
            landmarks := lms, initialPos := pos, initialDist := dst\<rparr>)"

section \<open>Visualization and the per-frame sync\<close>

definition setupVisualization :: "state \<Rightarrow> state" where
  "setupVisualization s =
     (let (startPoint, d0) =
            (if length (landmarks s) > 0 then
               (let sp = (lat (landmarks s ! 0), lon (landmarks s ! 0)) in
                (Some sp,
                 near_dist (findNearestPointOnRoute (routeCoords s) (cumulativeDist s) sp)))
             else (first_point (routeCoords s), Num 0))
      in s\<lparr>initialDist := d0,
            marker := (case marker s of
                         None \<Rightarrow> Some (Marker startPoint)
                       | Some m \<Rightarrow> Some (Marker startPoint)),
            mapView := startPoint\<rparr>)"

definition updateLabel :: "labelBox option \<Rightarrow> landmark list \<Rightarrow> jsnum \<Rightarrow> labelBox option" where
  "updateLabel box lms currentTime =
     (case box of
        None \<Rightarrow> None
      | Some b \<Rightarrow>
          if length lms = 0 then Some (b\<lparr>opacity := 0\<rparr>)
          else
            (let offset = Num 0;
                 correctedTime = currentTime - offset in
             case find (\<lambda>l. Math_abs (time l - correctedTime) < Num 2) lms of
               Some lm \<Rightarrow> Some (b\<lparr>innerText := description lm, opacity := 1\<rparr>)
             | None \<Rightarrow> Some (b\<lparr>opacity := 0\<rparr>)))"

text \<open>
  The distance \<open>d\<close> that a frame of \<open>syncMarker\<close> chooses at playback time \<open>t\<close> (lines
  289 to 294). The comparison with the landmark's time is made only when that time has
  the type number.
\<close>

definition syncMarker_distance :: "state \<Rightarrow> jsnum \<Rightarrow> error + jsnum" where
  "syncMarker_distance s t =
     (if length (landmarks s) > 0 \<and> time_is_number (landmarks s ! 0)
           \<and> t < time (landmarks s ! 0)
      then Inr (initialDist s)
      else interpolateDistanceForTime (timePoints s) t)"

text \<open>
  \<open>marker.setLatLng(pos)\<close> and \<open>map.panTo(pos)\<close> convert the array \<open>pos\<close> with Leaflet's
  \<open>toLatLng\<close>, whose \<open>LatLng\<close> constructor throws \<open>Invalid LatLng object\<close> when a
  coordinate is \<open>NaN\<close>; an infinite coordinate is accepted. An \<open>undefined\<close> position makes
  the marker's update read a property of \<open>undefined\<close>.
\<close>

definition toLatLng :: "point option \<Rightarrow> error + point" where
  "toLatLng pos =
     (case pos of
        None \<Rightarrow> Inl TypeError
      | Some p \<Rightarrow> if fst p = NaN \<or> snd p = NaN then Inl InvalidLatLng else Inr p)"

text \<open>
  One frame of \<open>syncMarker\<close>. A frame that throws is \<open>Inl\<close>: the state is as before the
  frame, and the source does not request another frame.
\<close>

definition syncMarker :: "state \<Rightarrow> error + state" where
  "syncMarker s =
     (case player s of
        None \<Rightarrow> Inr s
      | Some t \<Rightarrow>
          if marker s = None \<or> length (routeCoords s) = 0 then Inr s
          else
            (case syncMarker_distance s t of
               Inl e \<Rightarrow> Inl e
             | Inr d \<Rightarrow>
                 (case getPositionAtDistance (routeCoords s) (cumulativeDist s) d of
                    Inl e \<Rightarrow> Inl e
                  | Inr pos \<Rightarrow>
                      (case toLatLng pos of
                         Inl e \<Rightarrow> Inl e
                       | Inr p \<Rightarrow>
                           Inr (s\<lparr>marker := Some (Marker (Some p)),
                                  mapView := (if autoPanEnabled s then Some p else mapView s),
                                  labelDisplay :=
                                    updateLabel (labelDisplay s) (landmarks s) t\<rparr>)))))"

text \<open>
  \<open>onPlayerReady\<close>: the visualization is set up and the label updated for the player's
  current time (an exception of that update is caught and logged); then the first frame
  is requested. The handler it installs for play and pause only switches
  \<open>autoPanEnabled\<close>.
\<close>

definition onPlayerReady :: "state \<Rightarrow> state" where
  "onPlayerReady s =
     (let s1 = setupVisualization s in
      case player s1 of
        None \<Rightarrow> s1
      | Some t \<Rightarrow> s1\<lparr>labelDisplay := updateLabel (labelDisplay s1) (landmarks s1) t\<rparr>)"

section \<open>Notions used to state the properties\<close>

text \<open>A finite number.\<close>

fun finite_num :: "jsnum \<Rightarrow> bool" where
  "finite_num (Num a) = True"
| "finite_num PInf = False"
| "finite_num NInf = False"
| "finite_num NaN = False"

definition sorted_by_time :: "timePoint list \<Rightarrow> bool" where
  "sorted_by_time tps = sorted_wrt (\<lambda>a b. time a \<le> time b) tps"

definition strictly_by_dist :: "timePoint list \<Rightarrow> bool" where
  "strictly_by_dist tps = sorted_wrt (\<lambda>a b. dist' a < dist' b) tps"

text \<open>
  The pair of anchors \<open>i - 1\<close>, \<open>i\<close> brackets the time \<open>t\<close>, and the linear interpolation
  over that pair, written with the operations of JavaScript.
\<close>

definition brackets_time :: "timePoint list \<Rightarrow> jsnum \<Rightarrow> nat \<Rightarrow> bool" where
  "brackets_time tps t i \<longleftrightarrow> time (tps ! (i - 1)) \<le> t \<and> t \<le> time (tps ! i)"

definition interpolation_at :: "timePoint list \<Rightarrow> jsnum \<Rightarrow> nat \<Rightarrow> jsnum" where
  "interpolation_at tps t i =
     dist' (tps ! (i - 1)) +
       ((t - time (tps ! (i - 1))) / (time (tps ! i) - time (tps ! (i - 1)))) *
         (dist' (tps ! i) - dist' (tps ! (i - 1)))"

text \<open>
  What the properties ask of \<open>map.distance\<close>: between consecutive route points it
  returns a finite number that is not negative.
\<close>

definition distance_ok :: "(point \<Rightarrow> point \<Rightarrow> jsnum) \<Rightarrow> point list \<Rightarrow> bool" where
  "distance_ok distance rc =
     list_all (\<lambda>(a, b). finite_num (distance a b) \<and> Num 0 \<le> distance a b) (zip rc (tl rc))"

text \<open>
  An instance of the parameter \<open>distance\<close> for the examples: the planar distance in the
  scale of \<open>pointToSegmentDistance\<close>.
\<close>

definition flatDistance :: "point \<Rightarrow> point \<Rightarrow> jsnum" where
  "flatDistance a b = Math_sqrt (pow2 (fst a - fst b) + pow2 (snd a - snd b)) * Num 111320"

text \<open>
  The globals as the script declares them (lines 5 to 11); the argument is the label
  element of the page.
\<close>

definition initial_state :: "labelBox option \<Rightarrow> state" where
  "initial_state box =
     \<lparr>routeCoords = [], cumulativeDist = [], timePoints = [], landmarks = [],
      initialDist = Num 0, initialPos = None, marker = None, player = None,
      autoPanEnabled = True, mapView = None, labelDisplay = box\<rparr>"


text \<open>
  A sample document: the route \<open>[[0,0],[0,1],[0,2]]\<close>, two linked points, one landmark at
  time \<open>5\<close> and a start position.
\<close>

definition example_data :: data where
  "example_data =
     \<lparr>coordinates = [(Num 0, Num 0), (Num 0, Num 1), (Num 0, Num 2)],
      linkedPoints = Some [\<lparr>time_lp = Num 0, position = (Num 0, Num 0)\<rparr>,
                           \<lparr>time_lp = Num 10, position = (Num 2, Num 0)\<rparr>],
      data_landmarks = Some [\<lparr>time = Num 5, lat = Num 1, lon = Num 0, description = ''Gate'', time_is_number = True\<rparr>],
      startPosition = Some (Num 0, Num 0)\<rparr>"






declare interpolate_loop.simps [simp del]
declare findNearestDistance_loop.simps [simp del]
declare findNearestPoint_loop.simps [simp del]
declare cumulative_loop.simps [simp del]
declare getPosition_loop.simps [simp del]
declare distanceToTime_loop.simps [simp del]

section \<open>Facts about numbers and lists\<close>

lemma Num_minus [simp]: "Num a - Num b = Num (a - b)"
  by (simp add: minus_jsnum_def)

lemma jsnum_minus_zero: "x - Num 0 = (x::jsnum)"
  by (cases x) (simp_all add: minus_jsnum_def)

lemma js_less_imp_le: "a < b \<Longrightarrow> a \<le> (b::jsnum)"
  by (cases a; cases b) auto

lemma js_le_not_NaN: "a \<le> (b::jsnum) \<Longrightarrow> a \<noteq> NaN \<and> b \<noteq> NaN"
  by (cases a; cases b) auto

lemma js_not_le: "a \<noteq> NaN \<Longrightarrow> b \<noteq> NaN \<Longrightarrow> \<not> a \<le> b \<Longrightarrow> b < (a::jsnum)"
  by (cases a; cases b) auto

lemma js_le_total: "a \<noteq> NaN \<Longrightarrow> b \<noteq> NaN \<Longrightarrow> a \<le> b \<or> b \<le> (a::jsnum)"
  by (cases a; cases b) auto

lemma js_plus_NaN [simp]: "x + NaN = (NaN::jsnum)"
  by (cases x) auto

lemma js_times_NaN [simp]: "x * NaN = (NaN::jsnum)"
  by (cases x) auto

lemma js_minus_NaN [simp]: "x - NaN = (NaN::jsnum)" "NaN - x = (NaN::jsnum)"
  by (simp_all add: minus_jsnum_def)

lemma find_first:
  "i < length xs \<Longrightarrow> P (xs ! i) \<Longrightarrow> (\<forall>j<i. \<not> P (xs ! j)) \<Longrightarrow> find P xs = Some (xs ! i)"
proof (induction xs arbitrary: i)
  case Nil
  then show ?case by simp
next
  case (Cons x xs)
  show ?case
  proof (cases i)
    case 0
    with Cons.prems show ?thesis by simp
  next
    case (Suc k)
    with Cons.prems have "\<not> P x" by auto
    moreover have "\<forall>j<k. \<not> P (xs ! j)"
    proof (intro allI impI)
      fix j assume "j < k"
      then have "Suc j < i" using Suc by simp
      with Cons.prems(3) have "\<not> P ((x # xs) ! Suc j)" by blast
      then show "\<not> P (xs ! j)" by simp
    qed
    then have "find P xs = Some (xs ! k)"
      using Cons.IH[of k] Cons.prems Suc by auto
    ultimately show ?thesis using Suc by simp
  qed
qed

lemma interpolate_loop_first:
  "i0 \<le> i \<Longrightarrow> i < length tps \<Longrightarrow> brackets_time tps t i \<Longrightarrow>
   (\<forall>j. i0 \<le> j \<and> j < i \<longrightarrow> \<not> brackets_time tps t j) \<Longrightarrow>
   interpolate_loop tps t i0 = Some (interpolation_at tps t i)"
proof (induction tps t i0 rule: interpolate_loop.induct)
  case (1 tps t i0)
  show ?case
  proof (cases "i0 = i")
    case True
    with "1.prems" show ?thesis
      by (subst interpolate_loop.simps)
         (simp add: brackets_time_def interpolation_at_def Let_def)
  next
    case False
    with "1.prems" have lt: "i0 < i" by simp
    with "1.prems" have nb: "\<not> brackets_time tps t i0" by simp
    have "interpolate_loop tps t (i0 + 1) = Some (interpolation_at tps t i)"
      using "1.IH"[OF _ refl refl] "1.prems" lt nb
      by (simp add: brackets_time_def)
    moreover have "i0 < length tps" using lt "1.prems" by simp
    moreover have "\<not> (time (tps ! (i0 - 1)) \<le> t \<and> t \<le> time (tps ! i0))"
      using nb by (simp add: brackets_time_def)
    ultimately show ?thesis
      by (subst interpolate_loop.simps) (auto simp add: Let_def)
  qed
qed

lemma sorted_bracket_exists:
  assumes srt: "sorted_wrt (\<lambda>a b. time a \<le> time b) tps"
    and len: "2 \<le> length tps"
    and t: "t \<noteq> NaN" and lo: "\<not> t \<le> time (tps ! 0)" and hi: "\<not> time (last tps) \<le> t"
  shows "\<exists>i. 1 \<le> i \<and> i < length tps \<and> brackets_time tps t i \<and>
             (\<forall>j. 1 \<le> j \<and> j < i \<longrightarrow> \<not> brackets_time tps t j)"
proof -
  let ?n = "length tps"
  have nn: "\<And>i j. i < j \<Longrightarrow> j < ?n \<Longrightarrow> time (tps ! i) \<le> time (tps ! j)"
    using srt by (simp add: sorted_wrt_iff_nth_less)
  have notnan: "\<And>i. i < ?n \<Longrightarrow> time (tps ! i) \<noteq> NaN"
  proof -
    fix i assume i: "i < ?n"
    show "time (tps ! i) \<noteq> NaN"
    proof (cases "i = 0")
      case True
      then show ?thesis using nn[of 0 1] len js_le_not_NaN by auto
    next
      case False
      then show ?thesis using nn[of 0 i] i js_le_not_NaN by auto
    qed
  qed
  have lastn: "last tps = tps ! (?n - 1)"
  proof -
    from len have "tps \<noteq> []" by auto
    then show ?thesis by (simp add: last_conv_nth)
  qed
  define Q where "Q = (\<lambda>i. 1 \<le> i \<and> i < ?n \<and> t \<le> time (tps ! i))"
  have "Q (?n - 1)"
  proof -
    from len have "?n - 1 < ?n" by linarith
    then have "time (tps ! (?n - 1)) \<noteq> NaN" by (rule notnan)
    with hi t lastn have "t < time (tps ! (?n - 1))" by (simp add: js_not_le)
    then have "t \<le> time (tps ! (?n - 1))" by (rule js_less_imp_le)
    moreover from len have "1 \<le> ?n - 1" "?n - 1 < ?n" by linarith+
    ultimately show ?thesis unfolding Q_def by blast
  qed
  define i where "i = (LEAST i. Q i)"
  have Qi: "Q i" unfolding i_def using \<open>Q (?n - 1)\<close> by (rule LeastI)
  have mini: "\<And>j. j < i \<Longrightarrow> \<not> Q j" unfolding i_def by (rule not_less_Least)
  have i1: "1 \<le> i" "i < ?n" "t \<le> time (tps ! i)" using Qi by (auto simp: Q_def)
  have prev: "time (tps ! (i - 1)) \<le> t"
  proof (cases "i = 1")
    case True
    from len have "0 < ?n" by linarith
    then have "time (tps ! 0) \<noteq> NaN" by (rule notnan)
    with lo t have "time (tps ! 0) < t" by (simp add: js_not_le)
    then show ?thesis using True by (simp add: js_less_imp_le)
  next
    case False
    with i1 have "1 \<le> i - 1" "i - 1 < i" "i - 1 < ?n" by auto
    with mini[of "i - 1"] have "\<not> t \<le> time (tps ! (i - 1))" by (auto simp: Q_def)
    with t notnan[OF \<open>i - 1 < ?n\<close>] have "time (tps ! (i - 1)) < t" by (simp add: js_not_le)
    then show ?thesis by (rule js_less_imp_le)
  qed
  have "\<forall>j. 1 \<le> j \<and> j < i \<longrightarrow> \<not> brackets_time tps t j"
  proof (intro allI impI)
    fix j assume j: "1 \<le> j \<and> j < i"
    with mini[of j] i1 have "\<not> t \<le> time (tps ! j)" by (auto simp: Q_def)
    then show "\<not> brackets_time tps t j" by (simp add: brackets_time_def)
  qed
  with i1 prev show ?thesis by (auto simp: brackets_time_def)
qed

section \<open>Distance at a time\<close>

text \<open>
  Claim C1 says that \<open>interpolateDistanceForTime\<close> returns the last anchor's distance
  whenever \<open>t\<close> is at or after the last anchor's time. The test against the first anchor
  comes first in the source, so where all anchors carry the time \<open>t\<close> the first anchor's
  distance is returned: with the anchors \<open>{time: 5, dist: 0}\<close>, \<open>{time: 5, dist: 100}\<close>
  and \<open>t = 5\<close> the result is \<open>0\<close>, not \<open>100\<close>.
\<close>

theorem interpolateDistanceForTime_last_counterexample:
  "sorted_by_time
     [\<lparr>time = Num 5, lat = Num 0, lon = Num 0, dist' = Num 0\<rparr>,
      \<lparr>time = Num 5, lat = Num 0, lon = Num 0, dist' = Num 100\<rparr>]
   \<and> time (last [\<lparr>time = Num 5, lat = Num 0, lon = Num 0, dist' = Num 0\<rparr>,
                 \<lparr>time = Num 5, lat = Num 0, lon = Num 0, dist' = Num 100\<rparr>]) \<le> Num 5
   \<and> dist' (last [\<lparr>time = Num 5, lat = Num 0, lon = Num 0, dist' = Num 0\<rparr>,
                  \<lparr>time = Num 5, lat = Num 0, lon = Num 0, dist' = Num 100\<rparr>]) = Num 100
   \<and> interpolateDistanceForTime
       [\<lparr>time = Num 5, lat = Num 0, lon = Num 0, dist' = Num 0\<rparr>,
        \<lparr>time = Num 5, lat = Num 0, lon = Num 0, dist' = Num 100\<rparr>] (Num 5)
     = Inr (Num 0)"
  by (simp add: interpolateDistanceForTime_def sorted_by_time_def)

text \<open>
  Claim C1, amended. For a non-empty anchor list sorted ascending by time,
  \<open>interpolateDistanceForTime\<close> returns the first anchor's distance when \<open>t\<close> is at or
  before the first anchor's time; the last anchor's distance when \<open>t\<close> is not at or
  before the first anchor's time and is at or after the last anchor's time; and
  otherwise, for a number \<open>t\<close> and at least two anchors, the linear interpolation
  \<open>prev.dist + ((t - prev.time) / (next.time - prev.time)) * (next.dist - prev.dist)\<close>
  over the first pair with \<open>prev.time \<le> t \<le> next.time\<close>.
\<close>

theorem interpolateDistanceForTime_cases:
  assumes "tps \<noteq> []" and "sorted_by_time tps"
  shows "(t \<le> time (tps ! 0) \<longrightarrow> interpolateDistanceForTime tps t = Inr (dist' (tps ! 0)))
    \<and> (\<not> t \<le> time (tps ! 0) \<and> time (last tps) \<le> t
          \<longrightarrow> interpolateDistanceForTime tps t = Inr (dist' (last tps)))
    \<and> (t \<noteq> NaN \<and> \<not> t \<le> time (tps ! 0) \<and> \<not> time (last tps) \<le> t \<and> 2 \<le> length tps
          \<longrightarrow> (\<exists>i. 1 \<le> i \<and> i < length tps \<and> brackets_time tps t i \<and>
                 (\<forall>j. 1 \<le> j \<and> j < i \<longrightarrow> \<not> brackets_time tps t j) \<and>
                 interpolateDistanceForTime tps t = Inr (interpolation_at tps t i)))"
proof (intro conjI impI)
  assume "t \<le> time (tps ! 0)"
  with assms(1) show "interpolateDistanceForTime tps t = Inr (dist' (tps ! 0))"
    by (simp add: interpolateDistanceForTime_def)
next
  assume "\<not> t \<le> time (tps ! 0) \<and> time (last tps) \<le> t"
  with assms(1) show "interpolateDistanceForTime tps t = Inr (dist' (last tps))"
    by (simp add: interpolateDistanceForTime_def)
next
  assume h: "t \<noteq> NaN \<and> \<not> t \<le> time (tps ! 0) \<and> \<not> time (last tps) \<le> t \<and> 2 \<le> length tps"
  then obtain i where i: "1 \<le> i" "i < length tps" "brackets_time tps t i"
      "\<forall>j. 1 \<le> j \<and> j < i \<longrightarrow> \<not> brackets_time tps t j"
    using sorted_bracket_exists[OF assms(2)[unfolded sorted_by_time_def], of t] by blast
  then have "interpolate_loop tps t 1 = Some (interpolation_at tps t i)"
    by (intro interpolate_loop_first) auto
  with h assms(1) have "interpolateDistanceForTime tps t = Inr (interpolation_at tps t i)"
    by (simp add: interpolateDistanceForTime_def)
  with i show "\<exists>i. 1 \<le> i \<and> i < length tps \<and> brackets_time tps t i \<and>
                 (\<forall>j. 1 \<le> j \<and> j < i \<longrightarrow> \<not> brackets_time tps t j) \<and>
                 interpolateDistanceForTime tps t = Inr (interpolation_at tps t i)"
    by blast
qed

text \<open>
  The theorem at the anchors \<open>{time: 0, dist: 0}\<close>, \<open>{time: 10, dist: 100000}\<close>: the
  distance at time \<open>5\<close> is \<open>50000\<close>, before the first anchor it is \<open>0\<close>, after the last
  \<open>100000\<close>.
\<close>

theorem interpolateDistanceForTime_cases_witness:
  "[\<lparr>time = Num 0, lat = Num 0, lon = Num 0, dist' = Num 0\<rparr>,
    \<lparr>time = Num 10, lat = Num 0, lon = Num 0, dist' = Num 100000\<rparr>] \<noteq> []
   \<and> sorted_by_time
       [\<lparr>time = Num 0, lat = Num 0, lon = Num 0, dist' = Num 0\<rparr>,
        \<lparr>time = Num 10, lat = Num 0, lon = Num 0, dist' = Num 100000\<rparr>]
   \<and> interpolateDistanceForTime
       [\<lparr>time = Num 0, lat = Num 0, lon = Num 0, dist' = Num 0\<rparr>,
        \<lparr>time = Num 10, lat = Num 0, lon = Num 0, dist' = Num 100000\<rparr>] (Num 5)
     = Inr (Num 50000)
   \<and> interpolateDistanceForTime
       [\<lparr>time = Num 0, lat = Num 0, lon = Num 0, dist' = Num 0\<rparr>,
        \<lparr>time = Num 10, lat = Num 0, lon = Num 0, dist' = Num 100000\<rparr>] (Num (- 1))
     = Inr (Num 0)
   \<and> interpolateDistanceForTime
       [\<lparr>time = Num 0, lat = Num 0, lon = Num 0, dist' = Num 0\<rparr>,
        \<lparr>time = Num 10, lat = Num 0, lon = Num 0, dist' = Num 100000\<rparr>] (Num 12)
     = Inr (Num 100000)"
proof -
  let ?tps = "[\<lparr>time = Num 0, lat = Num 0, lon = Num 0, dist' = Num 0\<rparr>,
    \<lparr>time = Num 10, lat = Num 0, lon = Num 0, dist' = Num 100000\<rparr>]"
  have ne: "?tps \<noteq> []" by simp
  have srt: "sorted_by_time ?tps" by (simp add: sorted_by_time_def)
  have mid: "Num 5 \<noteq> NaN \<and> \<not> Num 5 \<le> time (?tps ! 0) \<and> \<not> time (last ?tps) \<le> Num 5
      \<and> 2 \<le> length ?tps" by simp
  from interpolateDistanceForTime_cases[OF ne srt, of "Num 5"] mid
  obtain i where i: "1 \<le> i" "i < length ?tps"
      "interpolateDistanceForTime ?tps (Num 5) = Inr (interpolation_at ?tps (Num 5) i)"
    by blast
  then have "i = 1" by simp
  with i(3) have a: "interpolateDistanceForTime ?tps (Num 5) = Inr (Num 50000)"
    by (simp add: interpolation_at_def)
  have b: "interpolateDistanceForTime ?tps (Num (- 1)) = Inr (Num 0)"
    using interpolateDistanceForTime_cases[OF ne srt, of "Num (- 1)"] by simp
  have c: "interpolateDistanceForTime ?tps (Num 12) = Inr (Num 100000)"
    using interpolateDistanceForTime_cases[OF ne srt, of "Num 12"] by simp
  from ne srt a b c show ?thesis by blast
qed

section \<open>The round trip from a distance to a time and back\<close>

text \<open>
  Claim C2 bounds the rounding error of \<open>interpolateDistanceForTime (distanceToTime d)\<close>
  against \<open>d\<close>. The numbers of this model do not round, so a bound on rounding error
  cannot be stated over them, and the claim has no theorem here. One failure of the round
  trip involves no rounding: two anchors with the same time and the distances \<open>0\<close> and
  \<open>10\<close> are sorted ascending by time, with strictly increasing distances; the distance
  \<open>5\<close> is mapped to the time \<open>0\<close>, and the time \<open>0\<close> back to the distance \<open>0\<close>.
\<close>

lemma round_trip_equal_times:
  "2 \<le> length [\<lparr>time = Num 0, lat = Num 0, lon = Num 0, dist' = Num 0\<rparr>,
               \<lparr>time = Num 0, lat = Num 0, lon = Num 0, dist' = Num 10\<rparr>]
   \<and> sorted_by_time
       [\<lparr>time = Num 0, lat = Num 0, lon = Num 0, dist' = Num 0\<rparr>,
        \<lparr>time = Num 0, lat = Num 0, lon = Num 0, dist' = Num 10\<rparr>]
   \<and> strictly_by_dist
       [\<lparr>time = Num 0, lat = Num 0, lon = Num 0, dist' = Num 0\<rparr>,
        \<lparr>time = Num 0, lat = Num 0, lon = Num 0, dist' = Num 10\<rparr>]
   \<and> Num 0 < Num 5 \<and> Num 5 < Num 10
   \<and> distanceToTime
       [\<lparr>time = Num 0, lat = Num 0, lon = Num 0, dist' = Num 0\<rparr>,
        \<lparr>time = Num 0, lat = Num 0, lon = Num 0, dist' = Num 10\<rparr>] (Num 5) = Num 0
   \<and> interpolateDistanceForTime
       [\<lparr>time = Num 0, lat = Num 0, lon = Num 0, dist' = Num 0\<rparr>,
        \<lparr>time = Num 0, lat = Num 0, lon = Num 0, dist' = Num 10\<rparr>]
       (distanceToTime
         [\<lparr>time = Num 0, lat = Num 0, lon = Num 0, dist' = Num 0\<rparr>,
          \<lparr>time = Num 0, lat = Num 0, lon = Num 0, dist' = Num 10\<rparr>] (Num 5))
     = Inr (Num 0)"
  by (simp add: interpolateDistanceForTime_def distanceToTime_def strictly_by_dist_def
      sorted_by_time_def
      distanceToTime_loop.simps)

section \<open>Degenerate anchor lists\<close>

text \<open>
  Claim C3 says that on the empty anchor list both directions return \<open>0\<close> and never throw.
  \<open>distanceToTime\<close> does; \<open>interpolateDistanceForTime\<close> throws a \<open>TypeError\<close> for every
  \<open>t\<close>, because its test of the length comes after the reads of \<open>timePoints[0].time\<close>.
\<close>

theorem interpolate_empty_throws: "interpolateDistanceForTime [] t = Inl TypeError \<and> distanceToTime [] d = Num 0"
  by (simp add: interpolateDistanceForTime_def distanceToTime_def)

text \<open>
  Claim C10. On a list of exactly one anchor \<open>distanceToTime\<close> returns \<open>0\<close> for every
  \<open>d\<close>, while \<open>interpolateDistanceForTime\<close> returns that anchor's distance (for a time
  \<open>t\<close> and an anchor time that are numbers, not \<open>NaN\<close>).
\<close>

theorem single_anchor:
  "distanceToTime [a] d = Num 0 \<and>
   (t \<noteq> NaN \<and> time a \<noteq> NaN \<longrightarrow> interpolateDistanceForTime [a] t = Inr (dist' a))"
  using js_le_total[of t "time a"]
  by (auto simp add: interpolateDistanceForTime_def distanceToTime_def)

theorem single_anchor_witness:
  "distanceToTime [\<lparr>time = Num 3, lat = Num 0, lon = Num 0, dist' = Num 7\<rparr>] (Num 7) = Num 0 \<and>
   interpolateDistanceForTime [\<lparr>time = Num 3, lat = Num 0, lon = Num 0, dist' = Num 7\<rparr>] (Num 9) = Inr (Num 7)"
  using single_anchor[of "\<lparr>time = Num 3, lat = Num 0, lon = Num 0, dist' = Num 7\<rparr>" "Num 7" "Num 9"]
  by simp

section \<open>The landmark label\<close>

text \<open>
  Claim C9. With the label element present, \<open>updateLabel\<close> shows the description of the
  first landmark in list order with \<open>|landmark.time - t| < 2\<close>, and hides the label
  (opacity \<open>0\<close>) when no landmark is within \<open>2\<close> of \<open>t\<close>.
\<close>

theorem updateLabel_first_match:
  "(i < length lms \<and> Math_abs (time (lms ! i) - t) < Num 2 \<and>
      (\<forall>j<i. \<not> Math_abs (time (lms ! j) - t) < Num 2)
     \<longrightarrow> updateLabel (Some b) lms t = Some (b\<lparr>innerText := description (lms ! i), opacity := 1\<rparr>))
   \<and> ((\<forall>l\<in>set lms. \<not> Math_abs (time l - t) < Num 2)
     \<longrightarrow> updateLabel (Some b) lms t = Some (b\<lparr>opacity := 0\<rparr>))"
proof (intro conjI impI)
  assume h: "i < length lms \<and> Math_abs (time (lms ! i) - t) < Num 2 \<and>
      (\<forall>j<i. \<not> Math_abs (time (lms ! j) - t) < Num 2)"
  then have "find (\<lambda>l. Math_abs (time l - t) < Num 2) lms = Some (lms ! i)"
    by (intro find_first) auto
  moreover from h have "lms \<noteq> []" by auto
  ultimately show "updateLabel (Some b) lms t = Some (b\<lparr>innerText := description (lms ! i), opacity := 1\<rparr>)"
    by (simp add: updateLabel_def jsnum_minus_zero)
next
  assume "\<forall>l\<in>set lms. \<not> Math_abs (time l - t) < Num 2"
  then have "find (\<lambda>l. Math_abs (time l - t) < Num 2) lms = None"
    by (simp add: find_None_iff)
  then show "updateLabel (Some b) lms t = Some (b\<lparr>opacity := 0\<rparr>)"
    by (simp add: updateLabel_def jsnum_minus_zero)
qed

text \<open>A single landmark at time \<open>5\<close>: the label is shown at \<open>4.5\<close> and hidden at \<open>8\<close>.\<close>

theorem updateLabel_witness:
  "updateLabel (Some \<lparr>innerText = '''', opacity = 0\<rparr>)
     [\<lparr>time = Num 5, lat = Num 1, lon = Num 0, description = ''Gate'', time_is_number = True\<rparr>] (Num (9 / 2))
     = Some \<lparr>innerText = ''Gate'', opacity = 1\<rparr>
   \<and> updateLabel (Some \<lparr>innerText = ''Gate'', opacity = 1\<rparr>)
     [\<lparr>time = Num 5, lat = Num 1, lon = Num 0, description = ''Gate'', time_is_number = True\<rparr>] (Num 8)
     = Some \<lparr>innerText = ''Gate'', opacity = 0\<rparr>"
  using updateLabel_first_match[of 0 "[\<lparr>time = Num 5, lat = Num 1, lon = Num 0, description = ''Gate'', time_is_number = True\<rparr>]"
            "Num (9 / 2)" "\<lparr>innerText = '''', opacity = 0\<rparr>"]
        updateLabel_first_match[of 0 "[\<lparr>time = Num 5, lat = Num 1, lon = Num 0, description = ''Gate'', time_is_number = True\<rparr>]"
            "Num 8" "\<lparr>innerText = ''Gate'', opacity = 1\<rparr>"]
  by simp

section \<open>The projected distance stays on the route\<close>

lemma clamp_frac: "Math_max (Num 0) (Math_min (Num 1) q) = NaN \<or>
    (\<exists>f. Math_max (Num 0) (Math_min (Num 1) q) = Num f \<and> 0 \<le> f \<and> f \<le> 1)"
  by (cases q) (auto simp: Math_max_def Math_min_def)

lemma seg_frac_range:
  assumes "seg_dist (pointToSegmentDistance p a b) < x"
  shows "\<exists>f. frac (pointToSegmentDistance p a b) = Num f \<and> 0 \<le> f \<and> f \<le> 1"
proof -
  let ?fr = "frac (pointToSegmentDistance p a b)"
  have "?fr = NaN \<or> (\<exists>f. ?fr = Num f \<and> 0 \<le> f \<and> f \<le> 1)"
    unfolding pointToSegmentDistance_def Let_def by (simp add: clamp_frac)
  moreover have "?fr = NaN \<Longrightarrow> seg_dist (pointToSegmentDistance p a b) = NaN"
    unfolding pointToSegmentDistance_def Let_def by (simp add: pow2_def)
  ultimately show ?thesis using assms by auto
qed

lemma distance_ok_nth:
  assumes "distance_ok distance rc" "1 \<le> i" "i < length rc"
  shows "\<exists>r. 0 \<le> r \<and> distance (rc ! (i - 1)) (rc ! i) = Num r"
proof -
  from assms obtain k where k: "i = Suc k" by (cases i) auto
  with assms have kl: "k < length (zip rc (tl rc))" by simp
  have "zip rc (tl rc) ! k = (rc ! k, rc ! Suc k)"
    using kl by (simp add: nth_tl)
  with assms(1) kl have "finite_num (distance (rc ! k) (rc ! Suc k))
      \<and> Num 0 \<le> distance (rc ! k) (rc ! Suc k)"
    unfolding distance_ok_def list_all_length by fastforce
  then show ?thesis using k by (cases "distance (rc ! k) (rc ! Suc k)") auto
qed

lemma cumulative_loop_table:
  "distance_ok distance rc \<Longrightarrow> 1 \<le> i \<Longrightarrow> cum = map Num rs \<Longrightarrow> length rs = i \<Longrightarrow>
   sorted rs \<Longrightarrow> rs ! 0 = 0 \<Longrightarrow>
   \<exists>rs'. cumulative_loop distance rc i cum = map Num rs' \<and> sorted rs' \<and> rs' ! 0 = 0 \<and>
         length rs' = max i (length rc)"
proof (induction distance rc i cum arbitrary: rs rule: cumulative_loop.induct)
  case (1 distance rc i cum)
  show ?case
  proof (cases "i < length rc")
    case False
    with "1.prems" show ?thesis
      by (subst cumulative_loop.simps) auto
  next
    case True
    from distance_ok_nth[OF "1.prems"(1,2) True]
    obtain r where r: "0 \<le> r" "distance (rc ! (i - 1)) (rc ! i) = Num r" by blast
    have ne: "rs \<noteq> []" using "1.prems" by auto
    have at: "num_at cum (i - 1) = Num (last rs)"
      using "1.prems" ne by (simp add: num_at_def last_conv_nth)
    let ?rs = "rs @ [last rs + r]"
    have new: "cum @ [num_at cum (i - 1) + distance (rc ! (i - 1)) (rc ! i)] = map Num ?rs"
      using at r "1.prems" by simp
    have srt: "sorted ?rs"
    proof -
      have "\<forall>y\<in>set rs. y \<le> last rs + r"
      proof
        fix y assume "y \<in> set rs"
        then obtain j where j: "j < length rs" "y = rs ! j" by (auto simp: in_set_conv_nth)
        have "rs ! j \<le> rs ! (length rs - 1)"
          using "1.prems"(5) j(1) by (intro sorted_nth_mono) auto
        then show "y \<le> last rs + r" using r ne j(2) by (simp add: last_conv_nth)
      qed
      with "1.prems"(5) show ?thesis by (simp add: sorted_append)
    qed
    have z: "?rs ! 0 = 0" using "1.prems" ne by (simp add: nth_append)
    have "\<exists>rs'. cumulative_loop distance rc (i + 1) (cum @ [num_at cum (i - 1) + distance (rc ! (i - 1)) (rc ! i)])
           = map Num rs' \<and> sorted rs' \<and> rs' ! 0 = 0 \<and> length rs' = max (i + 1) (length rc)"
      using "1.IH"[OF True refl "1.prems"(1) _ new _ srt z] "1.prems" by simp
    then show ?thesis using True
      by (subst cumulative_loop.simps) (auto simp: Let_def)
  qed
qed

lemma cumulativeDistances_table:
  assumes "distance_ok distance rc"
  shows "\<exists>rs. cumulativeDistances distance rc = map Num rs \<and> sorted rs \<and> rs ! 0 = 0 \<and>
         length rs = max 1 (length rc)"
  unfolding cumulativeDistances_def
  using cumulative_loop_table[OF assms, of 1 "[Num 0]" "[0]"] by simp

lemma findNearestDistance_loop_range:
  "cum = map Num rs \<Longrightarrow> sorted rs \<Longrightarrow> rs ! 0 = 0 \<Longrightarrow> length rc \<le> length rs \<Longrightarrow> rs \<noteq> [] \<Longrightarrow>
   1 \<le> i \<Longrightarrow> best = Num b \<Longrightarrow> 0 \<le> b \<Longrightarrow> b \<le> last rs \<Longrightarrow>
   \<exists>b'. findNearestDistance_loop rc cum p i nd best = Num b' \<and> 0 \<le> b' \<and> b' \<le> last rs"
proof (induction rc cum p i nd best arbitrary: b rule: findNearestDistance_loop.induct)
  case (1 rc cum p i nd best)
  show ?case
  proof (cases "i < length rc")
    case False
    with "1.prems" show ?thesis
      by (subst findNearestDistance_loop.simps) auto
  next
    case True
    let ?d = "pointToSegmentDistance p (rc ! (i - 1)) (rc ! i)"
    show ?thesis
    proof (cases "seg_dist ?d < nd")
      case False
      have "\<exists>b'. findNearestDistance_loop rc cum p (i + 1) nd best = Num b' \<and> 0 \<le> b' \<and> b' \<le> last rs"
        using "1.IH"(2)[OF True refl refl refl False] "1.prems" by simp
      with True False show ?thesis
        by (subst findNearestDistance_loop.simps) (auto simp: Let_def)
    next
      case lt: True
      from seg_frac_range[OF lt] obtain f where f: "frac ?d = Num f" "0 \<le> f" "f \<le> 1" by blast
      from "1.prems" True obtain k where k: "i = Suc k" by (cases i) auto
      have kl: "k < length rs" "Suc k < length rs" using k True "1.prems" by auto
      let ?v = "rs ! k + f * (rs ! Suc k - rs ! k)"
      have new: "num_at cum (i - 1) + frac ?d * (num_at cum i - num_at cum (i - 1)) = Num ?v"
        using kl "1.prems"(1) k f by (simp add: num_at_def)
      have step: "rs ! k \<le> rs ! Suc k" using "1.prems"(2) kl by (intro sorted_nth_mono) auto
      have "0 \<le> f * (rs ! Suc k - rs ! k)" using f step by simp
      moreover have "rs ! 0 \<le> rs ! k" using "1.prems"(2) kl by (intro sorted_nth_mono) auto
      ultimately have v0: "0 \<le> ?v" using "1.prems"(3) by linarith
      have "f * (rs ! Suc k - rs ! k) \<le> 1 * (rs ! Suc k - rs ! k)"
        using f step by (intro mult_right_mono) auto
      moreover have "rs ! Suc k \<le> rs ! (length rs - 1)"
        using "1.prems"(2) kl by (intro sorted_nth_mono) auto
      ultimately have v1: "?v \<le> last rs" using "1.prems"(5) by (simp add: last_conv_nth)
      have "\<exists>b'. findNearestDistance_loop rc cum p (i + 1) (seg_dist ?d)
                (num_at cum (i - 1) + frac ?d * (num_at cum i - num_at cum (i - 1))) = Num b'
              \<and> 0 \<le> b' \<and> b' \<le> last rs"
        using "1.IH"(1)[OF True refl refl refl lt "1.prems"(1,2,3,4,5) _ new v0 v1] "1.prems" by simp
      with True lt show ?thesis
        by (subst findNearestDistance_loop.simps) (auto simp: Let_def)
    qed
  qed
qed

text \<open>
  Claim C8. For every query point and every route with its cumulative distance table
  (built with a distance function that is finite and not negative between consecutive
  route points), the cumulative distance that \<open>findNearestDistanceOnRoute\<close> returns lies
  between \<open>0\<close> and the last entry of the table.
\<close>

theorem nearest_distance_in_range:
  assumes "distance_ok distance rc"
  shows "Num 0 \<le> findNearestDistanceOnRoute rc (cumulativeDistances distance rc) p \<and>
         findNearestDistanceOnRoute rc (cumulativeDistances distance rc) p
           \<le> last (cumulativeDistances distance rc)"
proof -
  from cumulativeDistances_table[OF assms] obtain rs where
    rs: "cumulativeDistances distance rc = map Num rs" "sorted rs" "rs ! 0 = 0"
        "length rs = max 1 (length rc)" by blast
  then have ne: "rs \<noteq> []" by auto
  have "0 \<le> last rs" using rs(2,3) ne
    by (metis last_conv_nth sorted_nth_mono diff_less length_greater_0_conv less_one zero_le)
  with rs ne obtain b' where
    b: "findNearestDistance_loop rc (cumulativeDistances distance rc) p 1 PInf (Num 0) = Num b'"
       "0 \<le> b'" "b' \<le> last rs"
    using findNearestDistance_loop_range[of "cumulativeDistances distance rc" rs rc 1 "Num 0" 0 p PInf]
    by auto
  show ?thesis
    using b ne by (simp add: findNearestDistanceOnRoute_def rs(1) last_map)
qed

text \<open>The theorem on the route \<open>(0,0)\<close>, \<open>(1,0)\<close>, \<open>(2,0)\<close> and the point \<open>(1,1)\<close>.\<close>

theorem nearest_distance_in_range_witness:
  "distance_ok flatDistance [(Num 0, Num 0), (Num 1, Num 0), (Num 2, Num 0)]
   \<and> Num 0 \<le> findNearestDistanceOnRoute [(Num 0, Num 0), (Num 1, Num 0), (Num 2, Num 0)]
        (cumulativeDistances flatDistance [(Num 0, Num 0), (Num 1, Num 0), (Num 2, Num 0)])
        (Num 1, Num 1)
   \<and> findNearestDistanceOnRoute [(Num 0, Num 0), (Num 1, Num 0), (Num 2, Num 0)]
        (cumulativeDistances flatDistance [(Num 0, Num 0), (Num 1, Num 0), (Num 2, Num 0)])
        (Num 1, Num 1)
      \<le> last (cumulativeDistances flatDistance [(Num 0, Num 0), (Num 1, Num 0), (Num 2, Num 0)])"
proof -
  have ok: "distance_ok flatDistance [(Num 0, Num 0), (Num 1, Num 0), (Num 2, Num 0)]"
    by (simp add: distance_ok_def flatDistance_def pow2_def)
  from ok nearest_distance_in_range[OF ok, of "(Num 1, Num 1)"] show ?thesis by blast
qed

section \<open>Position at the ends of the route\<close>

text \<open>
  Past the end of the table the last route point is returned; at distance \<open>0\<close> the first
  route point is returned when the first segment has a positive length and the two
  points are finite.
\<close>

lemma getPosition_loop_past:
  "(\<forall>j. i \<le> j \<and> j < length cum \<longrightarrow> cum ! j < d) \<Longrightarrow>
   length cum \<le> getPosition_loop cum d i"
proof (induction cum d i rule: getPosition_loop.induct)
  case (1 cum d i)
  show ?case
  proof (cases "i < length cum")
    case False
    then show ?thesis by (subst getPosition_loop.simps) simp
  next
    case True
    with "1.prems" have lt: "cum ! i < d" by simp
    have "length cum \<le> getPosition_loop cum d (i + 1)"
      using "1.IH" True lt "1.prems" by simp
    with True lt show ?thesis by (subst getPosition_loop.simps) simp
  qed
qed

lemma getPosition_past_end:
  assumes "2 \<le> length rc" and "\<forall>x\<in>set cum. x < d"
  shows "getPositionAtDistance rc cum d = Inr (Some (last rc))"
proof -
  have "length cum \<le> getPosition_loop cum d 1"
    using assms(2) by (intro getPosition_loop_past) simp
  with assms(1) show ?thesis by (simp add: getPositionAtDistance_def Let_def)
qed

lemma getPosition_zero_first:
  assumes "2 \<le> length rc" and "2 \<le> length cum"
    and "cum ! 0 = Num 0" and "cum ! 1 = Num c" and "0 < c"
    and "rc ! 0 = (Num a0, Num a1)" and "rc ! 1 = (Num b0, Num b1)"
  shows "getPositionAtDistance rc cum (Num 0) = Inr (Some (rc ! 0))"
proof -
  have "getPosition_loop cum (Num 0) 1 = 1"
    using assms by (subst getPosition_loop.simps) simp
  with assms show ?thesis by (simp add: getPositionAtDistance_def Let_def)
qed

text \<open>
  Claim C7 says that \<open>getPositionAtDistance(0)\<close> is the first route point for every route
  of at least two points. Where the first two route points coincide the first segment
  has length \<open>0\<close>, the segment fraction is \<open>0/0\<close>, and the position returned is
  \<open>[NaN, NaN]\<close>.
\<close>

theorem getPosition_zero_repeated_start:
  "cumulativeDistances flatDistance [(Num 0, Num 0), (Num 0, Num 0), (Num 1, Num 0)]
     = [Num 0, Num 0, Num 111320]
   \<and> getPositionAtDistance [(Num 0, Num 0), (Num 0, Num 0), (Num 1, Num 0)]
       (cumulativeDistances flatDistance [(Num 0, Num 0), (Num 0, Num 0), (Num 1, Num 0)])
       (Num 0)
     = Inr (Some (NaN, NaN))"
  by (simp add: getPositionAtDistance_def cumulativeDistances_def cumulative_loop.simps
      flatDistance_def pow2_def num_at_def getPosition_loop.simps Let_def)

section \<open>The anchors after loading\<close>

text \<open>
  Claim C5 says that \<open>timePoints\<close> is sorted ascending by time after \<open>loadData\<close>, for every
  input. The sort comes before the first anchor's time is replaced by that of the first
  landmark: linked points at times \<open>0\<close> and \<open>10\<close> with a first landmark at time \<open>20\<close>
  leave the times \<open>[20, 10]\<close>.
\<close>

theorem loadData_unsorted:
  "map time (timePoints (loadData flatDistance
      \<lparr>coordinates = [(Num 0, Num 0), (Num 0, Num 2)],
       linkedPoints = Some [\<lparr>time_lp = Num 0, position = (Num 0, Num 0)\<rparr>,
                            \<lparr>time_lp = Num 10, position = (Num 1, Num 0)\<rparr>],
       data_landmarks = Some [\<lparr>time = Num 20, lat = Num 2, lon = Num 0, description = ''End'', time_is_number = True\<rparr>],
       startPosition = None\<rparr> (initial_state None))) = [Num 20, Num 10]
   \<and> \<not> sorted_by_time (timePoints (loadData flatDistance
      \<lparr>coordinates = [(Num 0, Num 0), (Num 0, Num 2)],
       linkedPoints = Some [\<lparr>time_lp = Num 0, position = (Num 0, Num 0)\<rparr>,
                            \<lparr>time_lp = Num 10, position = (Num 1, Num 0)\<rparr>],
       data_landmarks = Some [\<lparr>time = Num 20, lat = Num 2, lon = Num 0, description = ''End'', time_is_number = True\<rparr>],
       startPosition = None\<rparr> (initial_state None)))"
  by (simp add: loadData_def sort_time_def sorted_by_time_def Let_def)

section \<open>The start position\<close>


text \<open>
  Claim C6 says that a \<open>startPosition\<close> decides the initial marker position even when
  landmarks are present. With a start position \<open>(0,0)\<close>, which is its own projection onto
  the route, and a first landmark at \<open>(1,0)\<close>, \<open>setupVisualization\<close> puts the marker at
  \<open>(1,0)\<close>.
\<close>

theorem start_position_counterexample:
  "startPosition
      \<lparr>coordinates = [(Num 0, Num 0), (Num 0, Num 2)],
       linkedPoints = None,
       data_landmarks = Some [\<lparr>time = Num 0, lat = Num 1, lon = Num 0, description = ''Start'', time_is_number = True\<rparr>],
       startPosition = Some (Num 0, Num 0)\<rparr> = Some (Num 0, Num 0)
   \<and> point (findNearestPointOnRoute [(Num 0, Num 0), (Num 2, Num 0)]
        (cumulativeDistances flatDistance [(Num 0, Num 0), (Num 2, Num 0)]) (Num 0, Num 0))
      = Some (Num 0, Num 0)
   \<and> marker (setupVisualization (loadData flatDistance
      \<lparr>coordinates = [(Num 0, Num 0), (Num 0, Num 2)],
       linkedPoints = None,
       data_landmarks = Some [\<lparr>time = Num 0, lat = Num 1, lon = Num 0, description = ''Start'', time_is_number = True\<rparr>],
       startPosition = Some (Num 0, Num 0)\<rparr> (initial_state None)))
      = Some (Marker (Some (Num 1, Num 0)))"
  by (simp add: setupVisualization_def loadData_def sort_time_def Let_def initial_state_def
      findNearestPointOnRoute_def findNearestPoint_loop.simps pointToSegmentDistance_def
      Math_max_def Math_min_def pow2_def first_point_def)

text \<open>
  Claim C6, amended. When the loaded data has a \<open>startPosition\<close>, \<open>loadData\<close> records it
  as \<open>initialPos\<close> and the cumulative distance of its projection as \<open>initialDist\<close>, ahead
  of the landmark and anchor defaults; when landmarks are present at visualization
  setup, the marker is first shown at the first landmark's position and \<open>initialDist\<close>
  is computed again from the first landmark, with or without a start position.
\<close>

theorem start_position_and_landmark:
  "(startPosition dat = Some sp \<longrightarrow>
      initialPos (loadData distance dat s) = Some sp \<and>
      initialDist (loadData distance dat s) =
        findNearestDistanceOnRoute (routeCoords (loadData distance dat s))
          (cumulativeDist (loadData distance dat s)) sp)
   \<and> (data_landmarks dat = Some (lm # lms) \<longrightarrow>
      marker (setupVisualization (loadData distance dat s)) = Some (Marker (Some (lat lm, lon lm))) \<and>
      initialDist (setupVisualization (loadData distance dat s)) =
        near_dist (findNearestPointOnRoute (routeCoords (loadData distance dat s))
          (cumulativeDist (loadData distance dat s)) (lat lm, lon lm)))"
proof (intro conjI impI)
  assume "startPosition dat = Some sp"
  then show "initialPos (loadData distance dat s) = Some sp"
    by (simp add: loadData_def Let_def)
next
  assume "startPosition dat = Some sp"
  then show "initialDist (loadData distance dat s) =
        findNearestDistanceOnRoute (routeCoords (loadData distance dat s))
          (cumulativeDist (loadData distance dat s)) sp"
    by (simp add: loadData_def Let_def)
next
  assume lm: "data_landmarks dat = Some (lm # lms)"
  then have l: "landmarks (loadData distance dat s) = lm # lms"
    by (simp add: loadData_def Let_def split: prod.splits)
  then show "marker (setupVisualization (loadData distance dat s)) = Some (Marker (Some (lat lm, lon lm)))"
    by (simp add: setupVisualization_def Let_def split: option.splits)
  from l show "initialDist (setupVisualization (loadData distance dat s)) =
        near_dist (findNearestPointOnRoute (routeCoords (loadData distance dat s))
          (cumulativeDist (loadData distance dat s)) (lat lm, lon lm))"
    by (simp add: setupVisualization_def Let_def)
qed

theorem start_position_and_landmark_witness:
  "startPosition example_data = Some (Num 0, Num 0)
   \<and> data_landmarks example_data =
       Some [\<lparr>time = Num 5, lat = Num 1, lon = Num 0, description = ''Gate'', time_is_number = True\<rparr>]
   \<and> initialPos (loadData flatDistance example_data (initial_state None)) = Some (Num 0, Num 0)
   \<and> marker (setupVisualization (loadData flatDistance example_data (initial_state None)))
       = Some (Marker (Some (Num 1, Num 0)))"
  using start_position_and_landmark[of example_data "(Num 0, Num 0)" flatDistance
          "initial_state None"
          "\<lparr>time = Num 5, lat = Num 1, lon = Num 0, description = ''Gate'', time_is_number = True\<rparr>" "[]"]
  by (simp add: example_data_def)

section \<open>Holding the marker before the first landmark\<close>












text \<open>
  A route whose first two points coincide, with the first landmark at the start: the
  position at the landmark's distance \<open>0\<close> is \<open>[NaN, NaN]\<close>, and the frame throws.
\<close>

lemma frame_on_repeated_start:
  "syncMarker ((onPlayerReady (loadData flatDistance
      \<lparr>coordinates = [(Num 0, Num 0), (Num 0, Num 0), (Num 0, Num 1)],
       linkedPoints = None,
       data_landmarks = Some [\<lparr>time = Num 5, lat = Num 0, lon = Num 0, description = ''Gate'',
                                time_is_number = True\<rparr>],
       startPosition = None\<rparr> (initial_state None)))\<lparr>player := Some (Num 2)\<rparr>) = Inl InvalidLatLng"
  by (simp add: onPlayerReady_def setupVisualization_def loadData_def sort_time_def Let_def
      initial_state_def cumulativeDistances_def cumulative_loop.simps flatDistance_def pow2_def
      num_at_def syncMarker_distance_def syncMarker_def toLatLng_def
      findNearestPointOnRoute_def findNearestPoint_loop.simps pointToSegmentDistance_def
      Math_max_def Math_min_def first_point_def getPositionAtDistance_def getPosition_loop.simps)

end
